theory Spec2Isabelle
  imports Main "HOL-Library.Word"
begin

section \<open>The analysis instance: class NestAnalysis (loop-analysis/nest-analysis.hpp)\<close>

text \<open>
  The class is a plain aggregate of fields. Types declared in other headers are type
  parameters of the record:
  \<^item> \<open>'nest\<close> is \<^verbatim>\<open>loop::Nest\<close>,
  \<^item> \<open>'ls\<close> is \<^verbatim>\<open>analysis::LoopState\<close>,
  \<^item> \<open>'tn\<close> is the element type of \<^verbatim>\<open>tiling::CompoundTileNest\<close>
    (the container offers \<^verbatim>\<open>data()\<close> and \<^verbatim>\<open>size()\<close>, so it is an
    array of elements),
  \<^item> \<open>'bi\<close> is \<^verbatim>\<open>tiling::BodyInfo\<close>,
  \<^item> \<open>'pp\<close> is \<^verbatim>\<open>problem::ProblemPoint\<close>,
  \<^item> \<open>'wc\<close> is \<^verbatim>\<open>problem::WorkloadConfig\<close>; the pointer member is an
    option, \<open>None\<close> for \<^verbatim>\<open>nullptr\<close>.

  A member keeps its name without the trailing underscore (a name that ends in an
  underscore is reserved in Isabelle): \<open>nest_state\<close> is \<^verbatim>\<open>nest_state_\<close>.
  \<^verbatim>\<open>std::uint64_t\<close> is \<open>64 word\<close>, \<^verbatim>\<open>int\<close> is a \<open>32 word\<close> read
  with \<open>sint\<close>, a \<^verbatim>\<open>std::vector\<close> is a list.
\<close>

record ('nest, 'ls, 'tn, 'bi, 'pp, 'wc) NestAnalysis =
  cached_nest :: 'nest
  storage_tiling_boundaries :: "64 word list"
  nest_state :: "'ls list"
  indices :: "32 word list"
  num_epochs :: "64 word"
  spatial_id :: "64 word"
  working_sets :: "'tn list"
  body_info :: 'bi
  per_level_dim_scales :: "64 word list list"
  cur_transform :: 'pp
  mold_low :: "'pp list"
  mold_high :: "'pp list"
  num_spatial_elems :: "64 word list"
  spatial_fanouts :: "64 word list"
  horizontal_sizes :: "64 word list"
  vertical_sizes :: "64 word list"
  storage_boundary_level :: "bool list"
  master_spatial_level :: "bool list"
  linked_spatial_level :: "bool list"
  working_sets_computed :: bool
  workload_config :: "'wc option"

section \<open>Serialization\<close>

subsection \<open>The archive\<close>

text \<open>
  \<^verbatim>\<open>serialize\<close> is a template over the archive class. An archive either saves or
  loads; \<^verbatim>\<open>ar & nvp\<close> appends the named value to a saving archive and, on a loading
  archive, replaces the member by the next named value of the input. The three members
  that \<^verbatim>\<open>serialize\<close> touches give the three shapes of a value:
  a vector of loop states, an array made by \<^verbatim>\<open>make_array(data(), size())\<close>, and a
  \<^verbatim>\<open>bool\<close>.
\<close>

datatype ('ls, 'tn) item =
    VectorItem "'ls list"
  | ArrayItem "'tn list"
  | BoolItem bool

datatype ('ls, 'tn) Archive =
    Saving "(string \<times> ('ls, 'tn) item) list"
  | Loading "(string \<times> ('ls, 'tn) item) list"

datatype archive_error = ArchiveException

text \<open>
  A loaded value has to fit the member it is loaded into. A vector is resized by the
  load, so any stored vector fits. \<^verbatim>\<open>make_array(p, n)\<close> stores and loads exactly
  \<open>n\<close> elements, where \<open>n\<close> is the \<^verbatim>\<open>size()\<close> of the object at hand: a stored array
  fits only a member of the same size.
\<close>

fun fits :: "('ls, 'tn) item \<Rightarrow> ('ls, 'tn) item \<Rightarrow> bool" where
  "fits (VectorItem cur) (VectorItem stored) = True"
| "fits (ArrayItem cur) (ArrayItem stored) = (length stored = length cur)"
| "fits (BoolItem cur) (BoolItem stored) = True"
| "fits cur stored = False"

text \<open>
  \<^verbatim>\<open>ar & make_nvp(name, member)\<close>. The result is the archive after the operation and
  the value the member holds after it. Loading fails with the archive's exception when
  the input is exhausted, when the next name is not the one asked for, or when the stored
  value does not fit.
\<close>

fun amp :: "('ls, 'tn) Archive \<Rightarrow> string \<Rightarrow> ('ls, 'tn) item \<Rightarrow>
    archive_error + (('ls, 'tn) Archive \<times> ('ls, 'tn) item)" where
  "amp (Saving out) name cur = Inr (Saving (out @ [(name, cur)]), cur)"
| "amp (Loading []) name cur = Inl ArchiveException"
| "amp (Loading ((n, stored) # rest)) name cur =
     (if n = name \<and> fits cur stored then Inr (Loading rest, stored)
      else Inl ArchiveException)"

fun the_vector :: "('ls, 'tn) item \<Rightarrow> 'ls list \<Rightarrow> 'ls list" where
  "the_vector (VectorItem v) old = v"
| "the_vector other old = old"

fun the_array :: "('ls, 'tn) item \<Rightarrow> 'tn list \<Rightarrow> 'tn list" where
  "the_array (ArrayItem a) old = a"
| "the_array other old = old"

fun the_bool :: "('ls, 'tn) item \<Rightarrow> bool \<Rightarrow> bool" where
  "the_bool (BoolItem b) old = b"
| "the_bool other old = old"

subsection \<open>NestAnalysis::serialize\<close>

text \<open>
  \<^verbatim>\<open>
  template <class Archive>
  void serialize(Archive& ar, const unsigned int version=0)
  {
    if(version == 0)
    {
      ar& BOOST_SERIALIZATION_NVP(nest_state_);
      ar& boost::serialization::make_nvp("work_sets_",
            boost::serialization::make_array(working_sets_.data(),working_sets_.size()));
      ar& BOOST_SERIALIZATION_NVP(working_sets_computed_);
    }
  }
  \<close>
  The three operations run in this order. An exception leaves the function at once: the
  error result carries the object as it stands then, with the members before the failing
  one already assigned.
\<close>

definition serialize ::
  "('ls, 'tn) Archive \<Rightarrow> 32 word \<Rightarrow> ('nest, 'ls, 'tn, 'bi, 'pp, 'wc) NestAnalysis \<Rightarrow>
     (archive_error \<times> ('nest, 'ls, 'tn, 'bi, 'pp, 'wc) NestAnalysis) +
     (('ls, 'tn) Archive \<times> ('nest, 'ls, 'tn, 'bi, 'pp, 'wc) NestAnalysis)" where
  "serialize ar version s =
     (if version = 0 then
        (case amp ar ''nest_state_'' (VectorItem (nest_state s)) of
           Inl e \<Rightarrow> Inl (e, s)
         | Inr (ar1, i1) \<Rightarrow>
             let s1 = s\<lparr>nest_state := the_vector i1 (nest_state s)\<rparr> in
             (case amp ar1 ''work_sets_'' (ArrayItem (working_sets s1)) of
                Inl e \<Rightarrow> Inl (e, s1)
              | Inr (ar2, i2) \<Rightarrow>
                  let s2 = s1\<lparr>working_sets := the_array i2 (working_sets s1)\<rparr> in
                  (case amp ar2 ''working_sets_computed_''
                          (BoolItem (working_sets_computed s2)) of
                     Inl e \<Rightarrow> Inl (e, s2)
                   | Inr (ar3, i3) \<Rightarrow>
                       Inr (ar3, s2\<lparr>working_sets_computed :=
                                      the_bool i3 (working_sets_computed s2)\<rparr>))))
      else Inr (ar, s))"

text \<open>What a version-0 archive of an instance holds, in stream order.\<close>

definition fields_v0 ::
  "('nest, 'ls, 'tn, 'bi, 'pp, 'wc) NestAnalysis \<Rightarrow> (string \<times> ('ls, 'tn) item) list" where
  "fields_v0 s =
     [(''nest_state_'', VectorItem (nest_state s)),
      (''work_sets_'', ArrayItem (working_sets s)),
      (''working_sets_computed_'', BoolItem (working_sets_computed s))]"

text \<open>The members an archive persists.\<close>

definition persisted ::
  "('nest, 'ls, 'tn, 'bi, 'pp, 'wc) NestAnalysis \<Rightarrow> 'ls list \<times> 'tn list \<times> bool" where
  "persisted s = (nest_state s, working_sets s, working_sets_computed s)"

text \<open>
  Saving the instance \<open>src\<close> with the class at version \<open>version\<close>, appending \<open>future\<close>
  (what a later writer adds after the known members), and loading the result into the
  instance \<open>dst\<close>. Loading is handed the version the archive was written with. The result
  is the members \<open>dst\<close> holds afterwards, \<open>None\<close> if either step raised.
\<close>

definition save_then_load ::
  "32 word \<Rightarrow> (string \<times> ('ls, 'tn) item) list \<Rightarrow>
   ('nest, 'ls, 'tn, 'bi, 'pp, 'wc) NestAnalysis \<Rightarrow>
   ('nest, 'ls, 'tn, 'bi, 'pp, 'wc) NestAnalysis \<Rightarrow> ('ls list \<times> 'tn list \<times> bool) option" where
  "save_then_load version future src dst =
     (case serialize (Saving []) version src of
        Inr (Saving out, _) \<Rightarrow>
          (case serialize (Loading (out @ future)) version dst of
             Inr (_, dst') \<Rightarrow> Some (persisted dst')
           | Inl _ \<Rightarrow> None)
      | _ \<Rightarrow> None)"

text \<open>
  Two concrete instances over unit-like parameter types: one that holds the results of an
  analysis (two loop states, one tile list per data space, the flag set), and one as
  constructed, with the same number of data spaces.
\<close>

definition analysed_instance :: "(unit, nat, nat list, unit, unit, unit) NestAnalysis" where
  "analysed_instance =
     \<lparr> cached_nest = (), storage_tiling_boundaries = [1],
       nest_state = [7, 8], indices = [0, 0], num_epochs = 1, spatial_id = 0,
       working_sets = [[4], [2]], body_info = (),
       per_level_dim_scales = [[1], [2]], cur_transform = (),
       mold_low = [(), ()], mold_high = [(), ()],
       num_spatial_elems = [1, 1], spatial_fanouts = [1, 1],
       horizontal_sizes = [1, 1], vertical_sizes = [1, 1],
       storage_boundary_level = [False, True],
       master_spatial_level = [False, False], linked_spatial_level = [False, False],
       working_sets_computed = True, workload_config = Some () \<rparr>"

definition fresh_instance :: "(unit, nat, nat list, unit, unit, unit) NestAnalysis" where
  "fresh_instance =
     \<lparr> cached_nest = (), storage_tiling_boundaries = [],
       nest_state = [], indices = [], num_epochs = 0, spatial_id = 0,
       working_sets = [[], []], body_info = (),
       per_level_dim_scales = [], cur_transform = (),
       mold_low = [], mold_high = [],
       num_spatial_elems = [], spatial_fanouts = [],
       horizontal_sizes = [], vertical_sizes = [],
       storage_boundary_level = [],
       master_spatial_level = [], linked_spatial_level = [],
       working_sets_computed = False, workload_config = None \<rparr>"

section \<open>The query interface\<close>

text \<open>
  The header declares \<^verbatim>\<open>ComputeWorkingSets\<close>, \<^verbatim>\<open>GetWorkingSets\<close> and
  \<^verbatim>\<open>GetBodyInfo\<close>; their bodies are in no file of the sources. The three definitions
  below follow the specification's sentences about them (sections 4.5 and 6). The
  recursive traversal with its collection step is the parameter \<open>traversal\<close>: any
  function on the instance.
\<close>

text \<open>
  Modelled from the spec: the body of \<^verbatim>\<open>ComputeWorkingSets\<close> is missing. It runs
  the recursive traversal to completion (section 5: "one call triggers the entire recursive
  traversal to completion before returning") and the analysis then counts as done, which
  \<^verbatim>\<open>working_sets_computed_\<close> records.
\<close>

definition ComputeWorkingSets ::
  "(('nest, 'ls, 'tn, 'bi, 'pp, 'wc) NestAnalysis \<Rightarrow> ('nest, 'ls, 'tn, 'bi, 'pp, 'wc) NestAnalysis) \<Rightarrow>
   ('nest, 'ls, 'tn, 'bi, 'pp, 'wc) NestAnalysis \<Rightarrow> ('nest, 'ls, 'tn, 'bi, 'pp, 'wc) NestAnalysis" where
  "ComputeWorkingSets traversal s = (traversal s)\<lparr>working_sets_computed := True\<rparr>"

text \<open>
  Modelled from the spec: the body of \<^verbatim>\<open>GetWorkingSets\<close> is missing. Section 6:
  "trigger (if not already done) the recursive analysis and return per-data-space
  tile-info". The result is the returned value and the instance after the call.
\<close>

definition GetWorkingSets ::
  "(('nest, 'ls, 'tn, 'bi, 'pp, 'wc) NestAnalysis \<Rightarrow> ('nest, 'ls, 'tn, 'bi, 'pp, 'wc) NestAnalysis) \<Rightarrow>
   ('nest, 'ls, 'tn, 'bi, 'pp, 'wc) NestAnalysis \<Rightarrow>
   'tn list \<times> ('nest, 'ls, 'tn, 'bi, 'pp, 'wc) NestAnalysis" where
  "GetWorkingSets traversal s =
     (let s' = (if working_sets_computed s then s else ComputeWorkingSets traversal s)
      in (working_sets s', s'))"

text \<open>
  Modelled from the spec: the body of \<^verbatim>\<open>GetBodyInfo\<close> is missing. Section 6:
  "returns aggregate per-iteration body statistics". The header declares it non-const
  beside \<^verbatim>\<open>GetWorkingSets\<close>, and "trigger (if not already done)" is read for it
  as well.
\<close>

definition GetBodyInfo ::
  "(('nest, 'ls, 'tn, 'bi, 'pp, 'wc) NestAnalysis \<Rightarrow> ('nest, 'ls, 'tn, 'bi, 'pp, 'wc) NestAnalysis) \<Rightarrow>
   ('nest, 'ls, 'tn, 'bi, 'pp, 'wc) NestAnalysis \<Rightarrow>
   'bi \<times> ('nest, 'ls, 'tn, 'bi, 'pp, 'wc) NestAnalysis" where
  "GetBodyInfo traversal s =
     (let s' = (if working_sets_computed s then s else ComputeWorkingSets traversal s)
      in (body_info s', s'))"

text \<open>
  A caller's session with one instance: a sequence of queries, each run on the instance
  the previous one left, with the answers in order.
\<close>

datatype query = QueryWorkingSets | QueryBodyInfo

datatype ('tn, 'bi) answer = TileInfos "'tn list" | BodyInfo 'bi

fun ask ::
  "(('nest, 'ls, 'tn, 'bi, 'pp, 'wc) NestAnalysis \<Rightarrow> ('nest, 'ls, 'tn, 'bi, 'pp, 'wc) NestAnalysis) \<Rightarrow>
   query \<Rightarrow> ('nest, 'ls, 'tn, 'bi, 'pp, 'wc) NestAnalysis \<Rightarrow>
   ('tn, 'bi) answer \<times> ('nest, 'ls, 'tn, 'bi, 'pp, 'wc) NestAnalysis" where
  "ask traversal QueryWorkingSets s =
     (case GetWorkingSets traversal s of (r, s') \<Rightarrow> (TileInfos r, s'))"
| "ask traversal QueryBodyInfo s =
     (case GetBodyInfo traversal s of (r, s') \<Rightarrow> (BodyInfo r, s'))"

fun run_queries ::
  "(('nest, 'ls, 'tn, 'bi, 'pp, 'wc) NestAnalysis \<Rightarrow> ('nest, 'ls, 'tn, 'bi, 'pp, 'wc) NestAnalysis) \<Rightarrow>
   query list \<Rightarrow> ('nest, 'ls, 'tn, 'bi, 'pp, 'wc) NestAnalysis \<Rightarrow>
   ('tn, 'bi) answer list \<times> ('nest, 'ls, 'tn, 'bi, 'pp, 'wc) NestAnalysis" where
  "run_queries traversal [] s = ([], s)"
| "run_queries traversal (q # qs) s =
     (case ask traversal q s of (a, s1) \<Rightarrow>
        (case run_queries traversal qs s1 of (as, s2) \<Rightarrow> (a # as, s2)))"

text \<open>The pure read of a stored result: no traversal and no change of the instance.\<close>

fun stored :: "query \<Rightarrow> ('nest, 'ls, 'tn, 'bi, 'pp, 'wc) NestAnalysis \<Rightarrow> ('tn, 'bi) answer" where
  "stored QueryWorkingSets s = TileInfos (working_sets s)"
| "stored QueryBodyInfo s = BodyInfo (body_info s)"

text \<open>
  A traversal for the instances above, to run the queries on: it fills in one tile list
  per data space and leaves the rest of the instance alone.
\<close>

definition sample_traversal ::
  "(unit, nat, nat list, unit, unit, unit) NestAnalysis \<Rightarrow>
   (unit, nat, nat list, unit, unit, unit) NestAnalysis" where
  "sample_traversal s = s\<lparr>working_sets := [[4], [2]]\<rparr>"

section \<open>Properties of serialize\<close>

lemma serialize_save_v0:
  "serialize (Saving out) 0 s = Inr (Saving (out @ fields_v0 s), s)"
  by (simp add: serialize_def fields_v0_def)

lemma serialize_load_v0:
  assumes "length (working_sets dst) = length (working_sets src)"
  shows "serialize (Loading (fields_v0 src @ future)) 0 dst =
           Inr (Loading future,
                dst\<lparr>nest_state := nest_state src,
                    working_sets := working_sets src,
                    working_sets_computed := working_sets_computed src\<rparr>)"
  using assms by (simp add: serialize_def fields_v0_def)

lemma serialize_other_version:
  "version \<noteq> 0 \<Longrightarrow> serialize ar version s = Inr (ar, s)"
  by (simp add: serialize_def)

lemma serialize_save_never_raises:
  "\<exists>out' s'. serialize (Saving out) version s = Inr (Saving out', s')"
  by (cases "version = 0") (simp_all add: serialize_save_v0 serialize_other_version)

lemma serialize_load_exhausted:
  "serialize (Loading []) 0 s = Inl (ArchiveException, s)"
  by (simp add: serialize_def)

lemma serialize_load_wrong_size:
  assumes "length a \<noteq> length (working_sets s)"
  shows "serialize (Loading ((''nest_state_'', VectorItem v) # (''work_sets_'', ArrayItem a) # rest)) 0 s
           = Inl (ArchiveException, s\<lparr>nest_state := v\<rparr>)"
  using assms by (simp add: serialize_def)

lemma save_then_load_v0:
  assumes "length (working_sets dst) = length (working_sets src)"
  shows "save_then_load 0 future src dst = Some (persisted src)"
  using assms
  by (simp add: save_then_load_def serialize_save_v0 serialize_load_v0 persisted_def)

text \<open>
  C8, as stated: the format is readable at every version, that is, whatever version an
  archive was written with, and whatever a later writer appended to it, loading it gives
  the reader the persisted members back. This fails at version 1, though nothing is
  raised there. The class at version 1 writes nothing, so saving the analysed instance
  and loading the archive into a fresh instance leaves the fresh instance's members. And
  an archive that is tagged version 1 and holds the three known members followed by a
  later member is not read at all: the archive and the instance come back as they were,
  the flag still unset.
\<close>

theorem serialize_version_1_counterexample:
  "save_then_load 1 [] analysed_instance fresh_instance \<noteq> Some (persisted analysed_instance)
   \<and> serialize (Saving []) 1 analysed_instance = Inr (Saving [], analysed_instance)
   \<and> serialize (Loading (fields_v0 analysed_instance @ [(''compute_cycles_'', BoolItem True)]))
        1 fresh_instance
      = Inr (Loading (fields_v0 analysed_instance @ [(''compute_cycles_'', BoolItem True)]),
             fresh_instance)
   \<and> working_sets_computed fresh_instance \<noteq> working_sets_computed analysed_instance"
  by (simp add: save_then_load_def serialize_def persisted_def
      analysed_instance_def fresh_instance_def)

text \<open>
  C8, amended: only version 0 is handled. At version 0 a save appends exactly the three
  members \<^verbatim>\<open>nest_state_\<close>, \<^verbatim>\<open>work_sets_\<close>, \<^verbatim>\<open>working_sets_computed_\<close> in this
  order and leaves the instance alone; a load into an instance with as many data spaces
  restores these three members, changes no other member, and leaves whatever follows them
  in the archive unread; so a save followed by a load restores the persisted members, also
  when later members were appended. At any other version serialize neither writes nor
  reads: the archive and the instance are returned unchanged.
\<close>

theorem serialize_only_version_0:
  fixes src dst :: "('nest, 'ls, 'tn, 'bi, 'pp, 'wc) NestAnalysis"
  assumes "length (working_sets dst) = length (working_sets src)"
  shows "serialize (Saving out) 0 src = Inr (Saving (out @ fields_v0 src), src)
       \<and> serialize (Loading (fields_v0 src @ future)) 0 dst =
           Inr (Loading future,
                dst\<lparr>nest_state := nest_state src,
                    working_sets := working_sets src,
                    working_sets_computed := working_sets_computed src\<rparr>)
       \<and> save_then_load 0 future src dst = Some (persisted src)
       \<and> (version \<noteq> 0 \<longrightarrow> serialize ar version dst = Inr (ar, dst))"
  using assms
  by (simp add: serialize_save_v0 serialize_load_v0 save_then_load_v0
      serialize_other_version)

theorem serialize_only_version_0_witness:
  "length (working_sets fresh_instance) = length (working_sets analysed_instance)
   \<and> (1 :: 32 word) \<noteq> 0
   \<and> serialize (Saving []) 0 analysed_instance
       = Inr (Saving (fields_v0 analysed_instance), analysed_instance)
   \<and> save_then_load 0 [(''compute_cycles_'', BoolItem True)] analysed_instance fresh_instance
       = Some ([7, 8], [[4], [2]], True)
   \<and> serialize (Loading [(''compute_cycles_'', BoolItem True)]) 1 fresh_instance
       = Inr (Loading [(''compute_cycles_'', BoolItem True)], fresh_instance)"
proof -
  have len: "length (working_sets fresh_instance) = length (working_sets analysed_instance)"
    by (simp add: fresh_instance_def analysed_instance_def)
  have p: "persisted analysed_instance = ([7, 8], [[4], [2]], True)"
    by (simp add: persisted_def analysed_instance_def)
  show ?thesis
    using len p
      serialize_only_version_0 [OF len, of "[]" "[(''compute_cycles_'', BoolItem True)]" 1
        "Loading [(''compute_cycles_'', BoolItem True)]"]
    by simp
qed

section \<open>Properties of the query interface\<close>

lemma ask_computed:
  "working_sets_computed s \<Longrightarrow> ask traversal q s = (stored q s, s)"
  by (cases q) (simp_all add: GetWorkingSets_def GetBodyInfo_def)

lemma run_queries_computed:
  "working_sets_computed s \<Longrightarrow> run_queries traversal qs s = (map (\<lambda>q. stored q s) qs, s)"
  by (induction qs) (simp_all add: ask_computed)

lemma ask_sets_flag:
  "working_sets_computed (snd (ask traversal q s))"
  by (cases q)
    (simp_all add: GetWorkingSets_def GetBodyInfo_def ComputeWorkingSets_def Let_def)

lemma ask_returns_stored:
  "fst (ask traversal q s) = stored q (snd (ask traversal q s))"
  by (cases q) (simp_all add: GetWorkingSets_def GetBodyInfo_def Let_def)

lemma loaded_flag_makes_pure_reads:
  assumes "serialize (Loading (fields_v0 src @ future)) 0 dst = Inr (ar, dst')"
    and "length (working_sets dst) = length (working_sets src)"
    and "working_sets_computed src"
  shows "run_queries traversal qs dst' = (map (\<lambda>q. stored q dst') qs, dst')"
proof -
  have "dst' = dst\<lparr>nest_state := nest_state src, working_sets := working_sets src,
                     working_sets_computed := working_sets_computed src\<rparr>"
    using assms(1) serialize_load_v0 [OF assms(2), of future] by simp
  then have "working_sets_computed dst'"
    using assms(3) by simp
  then show ?thesis
    by (rule run_queries_computed)
qed

text \<open>
  C10: after one analysis (a first query \<open>q0\<close>, \<open>GetWorkingSets\<close> or \<open>GetBodyInfo\<close>,
  which returns \<open>a\<close> and leaves the instance \<open>s1\<close>), the flag is set, the answer
  \<open>a\<close> is what \<open>s1\<close> stores, and every later sequence of \<open>GetWorkingSets\<close> and
  \<open>GetBodyInfo\<close> calls with no \<open>Reset\<close> or \<open>Init\<close> in between answers each query with
  the value stored in \<open>s1\<close>, the same each time, and leaves the instance exactly as it
  was. The later calls are given a traversal \<open>traversal'\<close> of their own: the answers do
  not depend on it, so no traversal runs.
\<close>

theorem repeated_queries_are_pure_reads:
  assumes "ask traversal q0 s0 = (a, s1)"
  shows "working_sets_computed s1
         \<and> a = stored q0 s1
         \<and> run_queries traversal' qs s1 = (map (\<lambda>q. stored q s1) qs, s1)"
proof -
  have flag: "working_sets_computed s1"
    using ask_sets_flag [of traversal q0 s0] assms by simp
  have res: "a = stored q0 s1"
    using ask_returns_stored [of traversal q0 s0] assms by simp
  show ?thesis
    using flag res by (simp add: run_queries_computed)
qed

theorem repeated_queries_are_pure_reads_witness:
  "ask sample_traversal QueryWorkingSets fresh_instance
     = (TileInfos [[4], [2]],
        fresh_instance\<lparr>working_sets := [[4], [2]], working_sets_computed := True\<rparr>)
   \<and> working_sets_computed
        (fresh_instance\<lparr>working_sets := [[4], [2]], working_sets_computed := True\<rparr>)
   \<and> run_queries (\<lambda>s. s\<lparr>working_sets := []\<rparr>)
        [QueryWorkingSets, QueryBodyInfo, QueryWorkingSets]
        (fresh_instance\<lparr>working_sets := [[4], [2]], working_sets_computed := True\<rparr>)
     = ([TileInfos [[4], [2]], BodyInfo (), TileInfos [[4], [2]]],
        fresh_instance\<lparr>working_sets := [[4], [2]], working_sets_computed := True\<rparr>)"
proof -
  have first: "ask sample_traversal QueryWorkingSets fresh_instance
     = (TileInfos [[4], [2]],
        fresh_instance\<lparr>working_sets := [[4], [2]], working_sets_computed := True\<rparr>)"
    by (simp add: GetWorkingSets_def ComputeWorkingSets_def sample_traversal_def
        fresh_instance_def)
  note later = repeated_queries_are_pure_reads [OF first,
        of "\<lambda>s. s\<lparr>working_sets := []\<rparr>" "[QueryWorkingSets, QueryBodyInfo, QueryWorkingSets]"]
  have run: "run_queries (\<lambda>s. s\<lparr>working_sets := []\<rparr>)
        [QueryWorkingSets, QueryBodyInfo, QueryWorkingSets]
        (fresh_instance\<lparr>working_sets := [[4], [2]], working_sets_computed := True\<rparr>)
     = ([TileInfos [[4], [2]], BodyInfo (), TileInfos [[4], [2]]],
        fresh_instance\<lparr>working_sets := [[4], [2]], working_sets_computed := True\<rparr>)"
    using later by simp
  have flag: "working_sets_computed
        (fresh_instance\<lparr>working_sets := [[4], [2]], working_sets_computed := True\<rparr>)"
    using later by simp
  show ?thesis
    using first flag run by blast
qed

end
